theory Spec2Isabelle
  imports Main "HOL-Library.Sublist"
begin

section \<open>Data model\<close>

text \<open>
  A prompt is the dictionary that \<open>create_prompt\<close> builds (script.py, lines 64-71): six
  string-valued fields. The two timestamps are the strings that
  \<open>datetime.now().isoformat()\<close> returns.
\<close>

record prompt =
  title :: string
  command :: string
  content :: string
  creator :: string
  created :: string
  modified :: string

text \<open>
  \<open>prompts_data\<close> is a Python dictionary from titles to prompts. A Python dictionary
  iterates in insertion order, and the resolver's scan depends on that order, so the
  dictionary is an association list; its keys are pairwise distinct.
\<close>

type_synonym prompts = "(string \<times> prompt) list"

text \<open>\<open>d[k] = v\<close>: an existing key keeps its position, a new key goes to the end.\<close>

fun dict_set :: "'k \<Rightarrow> 'v \<Rightarrow> ('k \<times> 'v) list \<Rightarrow> ('k \<times> 'v) list" where
  "dict_set k v [] = [(k, v)]"
| "dict_set k v (p # d) = (if fst p = k then (k, v) # d else p # dict_set k v d)"

text \<open>\<open>del d[k]\<close> and the removal done by \<open>d.pop(k)\<close>, for a key that is present.\<close>

definition dict_del :: "'k \<Rightarrow> ('k \<times> 'v) list \<Rightarrow> ('k \<times> 'v) list" where
  "dict_del k d = filter (\<lambda>p. fst p \<noteq> k) d"

text \<open>\<open>d.keys()\<close> and \<open>d.values()\<close>, in iteration order.\<close>

definition dict_keys :: "('k \<times> 'v) list \<Rightarrow> 'k list" where
  "dict_keys d = map fst d"

definition dict_values :: "('k \<times> 'v) list \<Rightarrow> 'v list" where
  "dict_values d = map snd d"

text \<open>
  The module's global state: the dictionary \<open>prompts_data\<close>, and the text of the file
  at the path \<open>prompts_file\<close> (\<open>None\<close> when the file does not exist).
\<close>

record globals =
  prompts_data :: prompts
  prompts_file :: "string option"

definition current_user :: string where
  "current_user = ''default_user''"

section \<open>Status messages\<close>

text \<open>
  The management functions report their outcome as a message string. The three error
  kinds of the specification are these messages of the source.
\<close>

definition ValidationError :: string where
  "ValidationError = ''Error: All fields are required''"

definition DuplicateCommandError :: "string \<Rightarrow> string" where
  "DuplicateCommandError cmd = ''Error: Command '' @ cmd @ '' already exists''"

definition NotFoundError_update :: string where
  "NotFoundError_update = ''Error: Please select a prompt to update''"

definition NotFoundError_delete :: string where
  "NotFoundError_delete = ''Error: Please select a prompt to delete''"

definition created_successfully :: "string \<Rightarrow> string" where
  "created_successfully ttl = ''Prompt '' @ [CHR 0x27] @ ttl @ [CHR 0x27] @ '' created successfully!''"

definition updated_successfully :: "string \<Rightarrow> string" where
  "updated_successfully ttl = ''Prompt '' @ [CHR 0x27] @ ttl @ [CHR 0x27] @ '' updated successfully!''"

definition deleted_successfully :: "string \<Rightarrow> string" where
  "deleted_successfully ttl = ''Prompt '' @ [CHR 0x27] @ ttl @ [CHR 0x27] @ '' deleted successfully!''"

section \<open>The prompt store\<close>

text \<open>
  \<open>json.dump\<close> and \<open>json.load\<close> belong to Python's standard library, not to this
  program: they are parameters \<open>json_dump\<close> and \<open>json_load\<close> of the functions that call
  them, so that what is proved about the store holds for any serializer.
  \<open>json_load\<close> returns \<open>None\<close> where \<open>json.load\<close> raises. Opening and writing the
  file are taken to succeed.
\<close>

definition save_prompts :: "(prompts \<Rightarrow> string) \<Rightarrow> globals \<Rightarrow> globals" where
  "save_prompts json_dump g = g\<lparr>prompts_file := Some (json_dump (prompts_data g))\<rparr>"

text \<open>
  The extension's start-up function (lines 26-43; the source calls it \<^verbatim>\<open>setup\<close>, a reserved
  word here). A file that exists is parsed, and a file that does not parse gives the
  empty dictionary; without a file the empty dictionary is saved.
\<close>

definition setup_ext :: "(prompts \<Rightarrow> string) \<Rightarrow> (string \<Rightarrow> prompts option) \<Rightarrow> globals \<Rightarrow> globals" where
  "setup_ext json_dump json_load g =
     (case prompts_file g of
        Some txt \<Rightarrow>
          (case json_load txt of
             Some d \<Rightarrow> g\<lparr>prompts_data := d\<rparr>
           | None \<Rightarrow> g\<lparr>prompts_data := []\<rparr>)
      | None \<Rightarrow> save_prompts json_dump (g\<lparr>prompts_data := []\<rparr>))"

definition get_prompts_list :: "globals \<Rightarrow> string list" where
  "get_prompts_list g = dict_keys (prompts_data g)"

text \<open>Lines 56-57 and 85-86: a command that does not start with a slash gets one.\<close>

definition normalize_command :: "string \<Rightarrow> string" where
  "normalize_command cmd = (if \<not> prefix ''/'' cmd then ''/'' @ cmd else cmd)"

text \<open>
  The loops at lines 60-62 and 89-91 return as soon as some entry under another key
  holds the command; what they return does not depend on which entry it was.
\<close>

definition command_taken :: "string \<Rightarrow> string \<Rightarrow> prompts \<Rightarrow> bool" where
  "command_taken cmd own d = list_ex (\<lambda>(prompt_id, p). command p = cmd \<and> prompt_id \<noteq> own) d"

text \<open>
  \<open>create_prompt\<close> reads the clock twice (lines 69 and 70): \<open>now_created\<close> and
  \<open>now_modified\<close> are the two readings. The result is the status message, the list of
  titles, and the globals after the call.
\<close>

definition create_prompt ::
  "(prompts \<Rightarrow> string) \<Rightarrow> string \<Rightarrow> string \<Rightarrow> string \<Rightarrow> string \<Rightarrow> string \<Rightarrow> globals
     \<Rightarrow> string \<times> string list \<times> globals" where
  "create_prompt json_dump now_created now_modified ttl cmd cnt g =
     (if ttl = [] \<or> cmd = [] \<or> cnt = [] then (ValidationError, get_prompts_list g, g)
      else
        let cmd' = normalize_command cmd in
        if command_taken cmd' ttl (prompts_data g)
        then (DuplicateCommandError cmd', get_prompts_list g, g)
        else
          let g' = save_prompts json_dump
                (g\<lparr>prompts_data := dict_set ttl
                     \<lparr>title = ttl, command = cmd', content = cnt, creator = current_user,
                      created = now_created, modified = now_modified\<rparr>
                     (prompts_data g)\<rparr>)
          in (created_successfully ttl, get_prompts_list g', g'))"

text \<open>
  \<open>update_prompt\<close>: \<open>cur\<close> is the dictionary stored under \<open>selected_prompt\<close>. When the
  title changes, line 95 pops it and stores it under the new title; lines 97-102 then
  overwrite four of its fields in place, so \<open>creator\<close> and \<open>created\<close> stay.
\<close>

definition update_prompt ::
  "(prompts \<Rightarrow> string) \<Rightarrow> string \<Rightarrow> string \<Rightarrow> string \<Rightarrow> string \<Rightarrow> string \<Rightarrow> globals
     \<Rightarrow> string \<times> string list \<times> globals" where
  "update_prompt json_dump now selected_prompt ttl cmd cnt g =
     (if selected_prompt = [] then (NotFoundError_update, get_prompts_list g, g)
      else case map_of (prompts_data g) selected_prompt of
        None \<Rightarrow> (NotFoundError_update, get_prompts_list g, g)
      | Some cur \<Rightarrow>
          if ttl = [] \<or> cmd = [] \<or> cnt = [] then (ValidationError, get_prompts_list g, g)
          else
            let cmd' = normalize_command cmd in
            if command_taken cmd' selected_prompt (prompts_data g)
            then (DuplicateCommandError cmd', get_prompts_list g, g)
            else
              let d1 = (if selected_prompt \<noteq> ttl
                        then dict_set ttl cur (dict_del selected_prompt (prompts_data g))
                        else prompts_data g);
                  d2 = dict_set ttl
                         (cur\<lparr>title := ttl, command := cmd', content := cnt, modified := now\<rparr>) d1;
                  g' = save_prompts json_dump (g\<lparr>prompts_data := d2\<rparr>)
              in (updated_successfully ttl, get_prompts_list g', g'))"

definition delete_prompt ::
  "(prompts \<Rightarrow> string) \<Rightarrow> string \<Rightarrow> globals \<Rightarrow> string \<times> string list \<times> globals" where
  "delete_prompt json_dump selected_prompt g =
     (if selected_prompt = [] \<or> selected_prompt \<notin> set (dict_keys (prompts_data g))
      then (NotFoundError_delete, get_prompts_list g, g)
      else
        let g' = save_prompts json_dump
              (g\<lparr>prompts_data := dict_del selected_prompt (prompts_data g)\<rparr>)
        in (deleted_successfully selected_prompt, get_prompts_list g', g'))"

section \<open>The command resolver\<close>

text \<open>
  \<open>s.split(sep, 1)\<close> for a one-character separator: at most one split, at the first
  occurrence of the separator.
\<close>

definition split_maxsplit1 :: "char \<Rightarrow> string \<Rightarrow> string list" where
  "split_maxsplit1 sep s =
     (if sep \<in> set s
      then [takeWhile (\<lambda>c. c \<noteq> sep) s, tl (dropWhile (\<lambda>c. c \<noteq> sep) s)]
      else [s])"

text \<open>\<open>sub in s\<close> on strings: \<open>sub\<close> starts at some position of \<open>s\<close>.\<close>

fun str_contains :: "string \<Rightarrow> string \<Rightarrow> bool" where
  "str_contains [] sub = (sub = [])"
| "str_contains (c # cs) sub = (prefix sub (c # cs) \<or> str_contains cs sub)"

text \<open>
  \<open>s.replace(old, new)\<close>: the occurrences of \<open>old\<close> are found from left to right
  without overlap, and the text put in is not searched again. (For an empty \<open>old\<close>,
  Python puts \<open>new\<close> before every character and at the end.)
\<close>

fun str_replace :: "string \<Rightarrow> string \<Rightarrow> string \<Rightarrow> string" where
  "str_replace [] old new = (if old = [] then new else [])"
| "str_replace (c # cs) old new =
     (if old = [] then new @ c # str_replace cs old new
      else if prefix old (c # cs) then new @ str_replace (drop (length old - 1) cs) old new
      else c # str_replace cs old new)"

text \<open>Lines 150-152: the command and the user's input.\<close>

definition command_part :: "string \<Rightarrow> string" where
  "command_part text = hd (split_maxsplit1 (CHR '' '') text)"

definition remainder_part :: "string \<Rightarrow> string" where
  "remainder_part text =
     (let parts = split_maxsplit1 (CHR '' '') text
      in if length parts > 1 then parts ! 1 else [])"

text \<open>Lines 158-163: the content that a matching prompt resolves to.\<close>

definition resolve_content :: "prompt \<Rightarrow> string \<Rightarrow> string" where
  "resolve_content p user_input =
     (if str_contains (content p) ''{input}'' \<and> user_input \<noteq> []
      then str_replace (content p) ''{input}'' user_input
      else if user_input \<noteq> [] then content p @ [CHR 0x0A, CHR 0x0A] @ user_input
      else content p)"

text \<open>
  The loop of lines 155-165 over \<open>prompts_data.values()\<close>: it returns at the first
  prompt that holds the command, and falls through (\<open>None\<close>) when there is none.
\<close>

fun scan_prompts :: "prompt list \<Rightarrow> string \<Rightarrow> string \<Rightarrow> (string \<times> string) option" where
  "scan_prompts [] cmd user_input = None"
| "scan_prompts (p # ps) cmd user_input =
     (if command p = cmd
      then Some (resolve_content p user_input, resolve_content p user_input)
      else scan_prompts ps cmd user_input)"

text \<open>
  \<open>chat_input_modifier\<close> reads the global dictionary \<open>d\<close> and changes nothing. The
  host's \<open>state\<close> argument is not used.
\<close>

definition chat_input_modifier :: "string \<Rightarrow> string \<Rightarrow> 'st \<Rightarrow> prompts \<Rightarrow> string \<times> string" where
  "chat_input_modifier text visible_text state d =
     (if prefix ''/'' text
      then (case scan_prompts (dict_values d) (command_part text) (remainder_part text) of
              Some r \<Rightarrow> r
            | None \<Rightarrow> (text, visible_text))
      else (text, visible_text))"

text \<open>
  The specification's \<open>matched\<close> flag: the text is a command invocation and the loop
  returned from inside.
\<close>

definition matched :: "string \<Rightarrow> prompts \<Rightarrow> bool" where
  "matched text d =
     (prefix ''/'' text \<and>
      scan_prompts (dict_values d) (command_part text) (remainder_part text) \<noteq> None)"

section \<open>Sequences of management operations\<close>

text \<open>
  A call of one of the three mutating functions, with its arguments (for create the
  two clock readings first, for update the clock reading first).
\<close>

datatype operation =
    Create string string string string string
  | Update string string string string string
  | Delete string

fun apply_operation :: "(prompts \<Rightarrow> string) \<Rightarrow> operation \<Rightarrow> globals \<Rightarrow> globals" where
  "apply_operation json_dump (Create now_created now_modified ttl cmd cnt) g =
     snd (snd (create_prompt json_dump now_created now_modified ttl cmd cnt g))"
| "apply_operation json_dump (Update now selected_prompt ttl cmd cnt) g =
     snd (snd (update_prompt json_dump now selected_prompt ttl cmd cnt g))"
| "apply_operation json_dump (Delete selected_prompt) g =
     snd (snd (delete_prompt json_dump selected_prompt g))"

fun run_operations :: "(prompts \<Rightarrow> string) \<Rightarrow> operation list \<Rightarrow> globals \<Rightarrow> globals" where
  "run_operations json_dump [] g = g"
| "run_operations json_dump (x # xs) g = run_operations json_dump xs (apply_operation json_dump x g)"

text \<open>No two entries of the dictionary hold the same command string.\<close>

definition unique_commands :: "prompts \<Rightarrow> bool" where
  "unique_commands d = distinct (map (\<lambda>e. command (snd e)) d)"

text \<open>A dictionary (distinct keys) with unique commands.\<close>

definition store_inv :: "globals \<Rightarrow> bool" where
  "store_inv g = (distinct (dict_keys (prompts_data g)) \<and> unique_commands (prompts_data g))"

section \<open>Validation\<close>

text \<open>
  C6. For every state of the store, \<open>create_prompt\<close> with an empty title, an empty
  command or an empty content returns the validation error; the dictionary and the
  persisted file are exactly what they were, so nothing was added, changed or written.
\<close>

theorem create_prompt_empty_field:
  assumes "ttl = [] \<or> cmd = [] \<or> cnt = []"
  shows "create_prompt json_dump now_created now_modified ttl cmd cnt g
           = (ValidationError, get_prompts_list g, g)"
  using assms by (simp add: create_prompt_def)

theorem create_prompt_empty_field_witness:
  "create_prompt (\<lambda>d. ''{}'') ''t1'' ''t2'' [] ''/c'' ''x''
       \<lparr>prompts_data = [(''a'', \<lparr>title = ''a'', command = ''/foo'', content = ''X'',
            creator = ''default_user'', created = ''t0'', modified = ''t0''\<rparr>)],
        prompts_file = Some ''saved''\<rparr>
     = (ValidationError, [''a''],
        \<lparr>prompts_data = [(''a'', \<lparr>title = ''a'', command = ''/foo'', content = ''X'',
            creator = ''default_user'', created = ''t0'', modified = ''t0''\<rparr>)],
        prompts_file = Some ''saved''\<rparr>)
   \<and> create_prompt (\<lambda>d. ''{}'') ''t1'' ''t2'' ''t'' [] ''x''
       \<lparr>prompts_data = [], prompts_file = None\<rparr>
     = (ValidationError, [], \<lparr>prompts_data = [], prompts_file = None\<rparr>)
   \<and> create_prompt (\<lambda>d. ''{}'') ''t1'' ''t2'' ''t'' ''/c'' []
       \<lparr>prompts_data = [], prompts_file = Some ''{}''\<rparr>
     = (ValidationError, [], \<lparr>prompts_data = [], prompts_file = Some ''{}''\<rparr>)"
  using create_prompt_empty_field [of "[]" "''/c''" "''x''" "\<lambda>d. ''{}''" "''t1''" "''t2''"
      "\<lparr>prompts_data = [(''a'', \<lparr>title = ''a'', command = ''/foo'', content = ''X'',
            creator = ''default_user'', created = ''t0'', modified = ''t0''\<rparr>)],
        prompts_file = Some ''saved''\<rparr>"]
    create_prompt_empty_field [of "''t''" "[]" "''x''" "\<lambda>d. ''{}''" "''t1''" "''t2''"
      "\<lparr>prompts_data = [], prompts_file = None\<rparr>"]
    create_prompt_empty_field [of "''t''" "''/c''" "[]" "\<lambda>d. ''{}''" "''t1''" "''t2''"
      "\<lparr>prompts_data = [], prompts_file = Some ''{}''\<rparr>"]
  by (simp add: get_prompts_list_def dict_keys_def)

section \<open>The prompt store: dictionary operations\<close>

lemma map_of_dict_set: "map_of (dict_set k v d) = (map_of d)(k \<mapsto> v)"
  by (induction d) (auto simp: fun_eq_iff)

lemma map_of_dict_del: "map_of (dict_del k d) = (map_of d)(k := None)"
  by (induction d) (auto simp: fun_eq_iff dict_del_def)

lemma keys_dict_set:
  "map fst (dict_set k v d) = (if k \<in> set (map fst d) then map fst d else map fst d @ [k])"
  by (induction d) auto

lemma keys_dict_del: "map fst (dict_del k d) = removeAll k (map fst d)"
  by (induction d) (auto simp: dict_del_def)

lemma dict_set_twice: "dict_set k v' (dict_set k v d) = dict_set k v' d"
  by (induction d) auto

lemma set_dict_set_subset: "set (dict_set k v d) \<subseteq> insert (k, v) (set d)"
  by (induction d) auto

lemma command_taken_iff:
  "command_taken cmd own d \<longleftrightarrow> (\<exists>e \<in> set d. command (snd e) = cmd \<and> fst e \<noteq> own)"
  unfolding command_taken_def list_ex_iff by (simp add: case_prod_unfold)

lemma unique_dict_set:
  assumes "distinct (map fst d)" and "unique_commands d"
    and "\<forall>e \<in> set d. command (snd e) = command v \<longrightarrow> fst e = k"
  shows "unique_commands (dict_set k v d)"
  using assms
proof (induction d)
  case Nil
  then show ?case by (simp add: unique_commands_def)
next
  case (Cons e d)
  show ?case
  proof (cases "fst e = k")
    case True
    have "command v \<notin> (\<lambda>e. command (snd e)) ` set d"
    proof
      assume "command v \<in> (\<lambda>e. command (snd e)) ` set d"
      then obtain x where x: "x \<in> set d" "command (snd x) = command v" by auto
      with Cons.prems(3) have "fst x = k" by simp
      moreover have "fst e \<notin> fst ` set d" using Cons.prems(1) by simp
      ultimately show False using x(1) True by force
    qed
    with True Cons.prems(2) show ?thesis by (simp add: unique_commands_def)
  next
    case False
    with Cons.prems(3) have ne: "command (snd e) \<noteq> command v" by auto
    have ih: "unique_commands (dict_set k v d)"
      using Cons.IH Cons.prems by (simp add: unique_commands_def)
    have "command (snd e) \<notin> (\<lambda>e. command (snd e)) ` set (dict_set k v d)"
    proof
      assume "command (snd e) \<in> (\<lambda>e. command (snd e)) ` set (dict_set k v d)"
      then obtain x where x: "x \<in> set (dict_set k v d)" "command (snd x) = command (snd e)" by auto
      with set_dict_set_subset [of k v d] have "x = (k, v) \<or> x \<in> set d" by auto
      moreover have "command (snd e) \<notin> (\<lambda>e. command (snd e)) ` set d"
        using Cons.prems(2) by (simp add: unique_commands_def)
      ultimately show False using x(2) ne by (metis image_eqI snd_conv)
    qed
    with False ih show ?thesis by (simp add: unique_commands_def)
  qed
qed

lemma unique_dict_del: "unique_commands d \<Longrightarrow> unique_commands (dict_del k d)"
  by (simp add: unique_commands_def dict_del_def distinct_map_filter)

lemma distinct_keys_dict_set: "distinct (map fst d) \<Longrightarrow> distinct (map fst (dict_set k v d))"
  by (simp add: keys_dict_set)

lemma distinct_keys_dict_del: "distinct (map fst d) \<Longrightarrow> distinct (map fst (dict_del k d))"
  by (simp add: keys_dict_del distinct_removeAll)

section \<open>Command resolution\<close>

subsection \<open>The scan and the split\<close>

lemma scan_prompts_first:
  "\<forall>q \<in> set before. command q \<noteq> cmd \<Longrightarrow> command p = cmd \<Longrightarrow>
   scan_prompts (before @ p # rest) cmd ui = Some (resolve_content p ui, resolve_content p ui)"
  by (induction before) simp_all

lemma scan_prompts_None_iff:
  "scan_prompts ps cmd ui = None \<longleftrightarrow> (\<forall>q \<in> set ps. command q \<noteq> cmd)"
  by (induction ps) simp_all

lemma scan_prompts_Some:
  "scan_prompts ps cmd ui = Some r \<Longrightarrow>
   \<exists>q \<in> set ps. command q = cmd \<and> r = (resolve_content q ui, resolve_content q ui)"
  by (induction ps) (auto split: if_splits)

lemma split_no_sep: "sep \<notin> set s \<Longrightarrow> split_maxsplit1 sep s = [s]"
  by (simp add: split_maxsplit1_def)

lemma split_sep:
  assumes "sep \<in> set s"
  shows "\<exists>a b. split_maxsplit1 sep s = [a, b] \<and> s = a @ sep # b \<and> sep \<notin> set a"
proof -
  let ?a = "takeWhile (\<lambda>c. c \<noteq> sep) s" and ?r = "dropWhile (\<lambda>c. c \<noteq> sep) s"
  from assms have ne: "?r \<noteq> []" by auto
  then have "hd ?r = sep" using hd_dropWhile [of "\<lambda>c. c \<noteq> sep" s] by simp
  with ne have r: "?r = sep # tl ?r" by (cases ?r) simp_all
  have "s = ?a @ ?r" by simp
  with r have "s = ?a @ sep # tl ?r" by metis
  moreover have "sep \<notin> set ?a" by (auto dest: set_takeWhileD)
  ultimately show ?thesis using assms by (auto simp: split_maxsplit1_def)
qed

lemma command_remainder_no_space:
  "CHR '' '' \<notin> set text \<Longrightarrow> command_part text = text \<and> remainder_part text = []"
  by (simp add: command_part_def remainder_part_def split_no_sep)

lemma command_remainder_space:
  assumes "CHR '' '' \<in> set text"
  shows "text = command_part text @ '' '' @ remainder_part text
         \<and> CHR '' '' \<notin> set (command_part text)"
proof -
  from split_sep [OF assms] obtain a b where
    "split_maxsplit1 (CHR '' '') text = [a, b]" "text = a @ CHR '' '' # b" "CHR '' '' \<notin> set a"
    by blast
  then show ?thesis by (simp add: command_part_def remainder_part_def)
qed

subsection \<open>What the substring test and the replacement compute\<close>

text \<open>
  \<open>str_contains\<close> is the substring relation. \<open>str_replace\<close> leaves a string without
  an occurrence as it is, and replaces the leftmost occurrence and goes on behind it:
  together these determine the result on every string.
\<close>

lemma str_contains_iff: "str_contains s sub \<longleftrightarrow> (\<exists>a b. s = a @ sub @ b)"
proof (induction s)
  case Nil
  then show ?case by auto
next
  case (Cons c cs)
  show ?case
  proof
    assume "str_contains (c # cs) sub"
    then consider "prefix sub (c # cs)" | "str_contains cs sub" by auto
    then show "\<exists>a b. c # cs = a @ sub @ b"
    proof cases
      case 1
      then obtain b where "c # cs = sub @ b" by (auto simp: prefix_def)
      then have "c # cs = [] @ sub @ b" by simp
      then show ?thesis by blast
    next
      case 2
      with Cons.IH obtain a b where "cs = a @ sub @ b" by blast
      then have "c # cs = (c # a) @ sub @ b" by simp
      then show ?thesis by blast
    qed
  next
    assume "\<exists>a b. c # cs = a @ sub @ b"
    then obtain a b where ab: "c # cs = a @ sub @ b" by blast
    show "str_contains (c # cs) sub"
    proof (cases a)
      case Nil
      with ab have "prefix sub (c # cs)" by (simp add: prefix_def)
      then show ?thesis by simp
    next
      case (Cons x a')
      with ab have "cs = a' @ sub @ b" by simp
      with Cons.IH have "str_contains cs sub" by blast
      then show ?thesis by simp
    qed
  qed
qed

lemma str_replace_absent: "\<not> str_contains s old \<Longrightarrow> str_replace s old new = s"
  by (induction s) (auto split: if_splits)

lemma prefix_into_butlast:
  assumes "old \<noteq> []" and "x \<noteq> []" and "prefix old (x @ old @ b)"
  shows "prefix old (x @ butlast old)"
proof -
  have len: "length old \<le> length (x @ butlast old)" using assms(1,2) by (cases x) simp_all
  have "old = take (length old) (x @ old @ b)"
    using assms(3) by (metis append_eq_conv_conj prefix_def)
  also have "x @ old @ b = (x @ butlast old) @ (last old # b)"
    using assms(1) by simp
  also have "take (length old) \<dots> = take (length old) (x @ butlast old)"
    using len by simp
  finally show ?thesis by (metis take_is_prefix)
qed

lemma str_replace_occurrence:
  assumes "old \<noteq> []" and "\<not> str_contains (a @ butlast old) old"
  shows "str_replace (a @ old @ b) old new = a @ new @ str_replace b old new"
  using assms(2)
proof (induction a)
  case Nil
  from assms(1) obtain y ys where old: "old = y # ys" by (cases old) auto
  then show ?case by simp
next
  case (Cons c a)
  from Cons.prems have np: "\<not> prefix old (c # a @ butlast old)"
    and nc: "\<not> str_contains (a @ butlast old) old" by auto
  have "\<not> prefix old ((c # a) @ old @ b)"
    using prefix_into_butlast [OF assms(1), of "c # a" b] np by auto
  with assms(1) Cons.IH [OF nc] show ?case by simp
qed

subsection \<open>Substitution and append\<close>

text \<open>
  C1. The text starts with a slash, \<open>p\<close> is the first prompt in the dictionary's order
  whose command equals the command part of the text (the only one, when commands are
  unique), and the remainder is not empty. If the content of \<open>p\<close> contains the token
  \<open>{input}\<close>, both returned values are the content with every occurrence of the token
  replaced by the remainder, and the call counts as matched.
\<close>

theorem resolve_placeholder:
  assumes "prefix ''/'' text"
    and "d = before @ (k, p) # rest"
    and "\<forall>e \<in> set before. command (snd e) \<noteq> command_part text"
    and "command p = command_part text"
    and "remainder_part text \<noteq> []"
    and "str_contains (content p) ''{input}''"
  shows "chat_input_modifier text visible_text state d
           = (str_replace (content p) ''{input}'' (remainder_part text),
              str_replace (content p) ''{input}'' (remainder_part text))
         \<and> matched text d"
proof -
  have "scan_prompts (dict_values d) (command_part text) (remainder_part text)
          = Some (resolve_content p (remainder_part text), resolve_content p (remainder_part text))"
    using assms(2-4) scan_prompts_first [of "map snd before" "command_part text" p "map snd rest"]
    by (simp add: dict_values_def)
  then show ?thesis using assms(1,5,6)
    by (simp add: chat_input_modifier_def matched_def resolve_content_def)
qed

text \<open>The specification's example: \<open>/foo bar\<close> against the content \<open>Hello {input}!\<close>.\<close>

theorem resolve_placeholder_witness:
  "chat_input_modifier ''/foo bar'' ''/foo bar'' ()
      [(''greet'', \<lparr>title = ''greet'', command = ''/foo'', content = ''Hello {input}!'',
          creator = ''default_user'', created = ''t0'', modified = ''t0''\<rparr>)]
     = (''Hello bar!'', ''Hello bar!'')
   \<and> matched ''/foo bar''
      [(''greet'', \<lparr>title = ''greet'', command = ''/foo'', content = ''Hello {input}!'',
          creator = ''default_user'', created = ''t0'', modified = ''t0''\<rparr>)]"
  using resolve_placeholder [of "''/foo bar''" _ "[]" "''greet''"
     "\<lparr>title = ''greet'', command = ''/foo'', content = ''Hello {input}!'',
          creator = ''default_user'', created = ''t0'', modified = ''t0''\<rparr>" "[]" "''/foo bar''" "()"]
  by (simp add: command_part_def remainder_part_def split_maxsplit1_def)

text \<open>
  C3. Under the same conditions, if the content of \<open>p\<close> does not contain the token
  \<open>{input}\<close>, both returned values are the content, a blank line (two newline
  characters) and the remainder, and the call counts as matched.
\<close>

theorem resolve_append:
  assumes "prefix ''/'' text"
    and "d = before @ (k, p) # rest"
    and "\<forall>e \<in> set before. command (snd e) \<noteq> command_part text"
    and "command p = command_part text"
    and "remainder_part text \<noteq> []"
    and "\<not> str_contains (content p) ''{input}''"
  shows "chat_input_modifier text visible_text state d
           = (content p @ [CHR 0x0A, CHR 0x0A] @ remainder_part text,
              content p @ [CHR 0x0A, CHR 0x0A] @ remainder_part text)
         \<and> matched text d"
proof -
  have "scan_prompts (dict_values d) (command_part text) (remainder_part text)
          = Some (resolve_content p (remainder_part text), resolve_content p (remainder_part text))"
    using assms(2-4) scan_prompts_first [of "map snd before" "command_part text" p "map snd rest"]
    by (simp add: dict_values_def)
  then show ?thesis using assms(1,5,6)
    by (simp add: chat_input_modifier_def matched_def resolve_content_def)
qed

theorem resolve_append_witness:
  "chat_input_modifier ''/foo bar'' ''/foo bar'' ()
      [(''sum'', \<lparr>title = ''sum'', command = ''/foo'', content = ''Summarize:'',
          creator = ''default_user'', created = ''t0'', modified = ''t0''\<rparr>)]
     = (''Summarize:'' @ [CHR 0x0A, CHR 0x0A] @ ''bar'',
        ''Summarize:'' @ [CHR 0x0A, CHR 0x0A] @ ''bar'')
   \<and> matched ''/foo bar''
      [(''sum'', \<lparr>title = ''sum'', command = ''/foo'', content = ''Summarize:'',
          creator = ''default_user'', created = ''t0'', modified = ''t0''\<rparr>)]"
  using resolve_append [of "''/foo bar''" _ "[]" "''sum''"
     "\<lparr>title = ''sum'', command = ''/foo'', content = ''Summarize:'',
          creator = ''default_user'', created = ''t0'', modified = ''t0''\<rparr>" "[]" "''/foo bar''" "()"]
  by (simp add: command_part_def remainder_part_def split_maxsplit1_def)

subsection \<open>Where the text is split\<close>

text \<open>
  C2, as stated, splits at the first whitespace character of any kind. The source
  splits at the first space character only (\<open>text.split(' ', 1)\<close>): with a tab between
  \<open>/foo\<close> and \<open>bar\<close> the whole text is the command, the remainder is empty, and a
  stored command \<open>/foo\<close> is not matched.
\<close>

theorem resolve_tab_counterexample:
  "command_part (''/foo'' @ [CHR 0x09] @ ''bar'') = ''/foo'' @ [CHR 0x09] @ ''bar''
   \<and> remainder_part (''/foo'' @ [CHR 0x09] @ ''bar'') = []
   \<and> \<not> matched (''/foo'' @ [CHR 0x09] @ ''bar'')
      [(''sum'', \<lparr>title = ''sum'', command = ''/foo'', content = ''Summarize:'',
          creator = ''default_user'', created = ''t0'', modified = ''t0''\<rparr>)]
   \<and> chat_input_modifier (''/foo'' @ [CHR 0x09] @ ''bar'') ''v'' ()
      [(''sum'', \<lparr>title = ''sum'', command = ''/foo'', content = ''Summarize:'',
          creator = ''default_user'', created = ''t0'', modified = ''t0''\<rparr>)]
     = (''/foo'' @ [CHR 0x09] @ ''bar'', ''v'')"
  by (simp add: command_part_def remainder_part_def split_maxsplit1_def matched_def
      chat_input_modifier_def dict_values_def)

text \<open>
  C2, amended. For every text that starts with a slash: if the text has no space
  character, the command is the whole text and the remainder is empty; otherwise the
  command is the part before the first space character and the remainder is everything
  after that space. The call is matched exactly when some stored prompt's command is
  equal, character for character, to the command part.
\<close>

theorem resolve_split_at_first_space:
  assumes "prefix ''/'' text"
  shows "(CHR '' '' \<notin> set text \<longrightarrow> command_part text = text \<and> remainder_part text = [])
       \<and> (CHR '' '' \<in> set text \<longrightarrow>
            text = command_part text @ '' '' @ remainder_part text
            \<and> CHR '' '' \<notin> set (command_part text))
       \<and> (matched text d \<longleftrightarrow> (\<exists>p \<in> set (dict_values d). command p = command_part text))"
  using assms command_remainder_no_space command_remainder_space
  by (auto simp: matched_def scan_prompts_None_iff)

theorem resolve_split_at_first_space_witness:
  "prefix ''/'' ''/foo bar'' \<and> CHR '' '' \<in> set ''/foo bar''
   \<and> command_part ''/foo bar'' = ''/foo'' \<and> remainder_part ''/foo bar'' = ''bar''
   \<and> ''/foo bar'' = command_part ''/foo bar'' @ '' '' @ remainder_part ''/foo bar''
   \<and> prefix ''/'' ''/foo'' \<and> CHR '' '' \<notin> set ''/foo''
   \<and> command_part ''/foo'' = ''/foo'' \<and> remainder_part ''/foo'' = []
   \<and> matched ''/foo''
      [(''sum'', \<lparr>title = ''sum'', command = ''/foo'', content = ''Summarize:'',
          creator = ''default_user'', created = ''t0'', modified = ''t0''\<rparr>)]
   \<and> \<not> matched ''/Foo''
      [(''sum'', \<lparr>title = ''sum'', command = ''/foo'', content = ''Summarize:'',
          creator = ''default_user'', created = ''t0'', modified = ''t0''\<rparr>)]"
  using resolve_split_at_first_space [of "''/foo bar''" "[]"]
    resolve_split_at_first_space [of "''/foo''"
      "[(''sum'', \<lparr>title = ''sum'', command = ''/foo'', content = ''Summarize:'',
          creator = ''default_user'', created = ''t0'', modified = ''t0''\<rparr>)]"]
    resolve_split_at_first_space [of "''/Foo''"
      "[(''sum'', \<lparr>title = ''sum'', command = ''/foo'', content = ''Summarize:'',
          creator = ''default_user'', created = ''t0'', modified = ''t0''\<rparr>)]"]
  by (simp add: dict_values_def command_part_def remainder_part_def split_maxsplit1_def)

subsection \<open>The returned pair\<close>

text \<open>
  C7, as stated, has both returned values equal to the input text when nothing
  matches. The source returns its two arguments: the second value is the visible text,
  which the host may pass different from the text (here, HTML-escaped).
\<close>

theorem resolve_visible_text_counterexample:
  "\<not> matched ''a<b'' []
   \<and> chat_input_modifier ''a<b'' ''a&lt;b'' () [] = (''a<b'', ''a&lt;b'')
   \<and> snd (chat_input_modifier ''a<b'' ''a&lt;b'' () []) \<noteq> ''a<b''"
  by (simp add: matched_def chat_input_modifier_def)

text \<open>
  C7, amended. For every text and every visible text: when a stored command matches,
  both returned values are the resolved content of a stored prompt that holds the
  command; when none matches (also when the text does not start with a slash), the
  returned pair is the text and the visible text, each unchanged, whatever the store
  holds.
\<close>

theorem resolve_pair:
  "(matched text d \<longrightarrow>
      (\<exists>p \<in> set (dict_values d). command p = command_part text \<and>
         chat_input_modifier text visible_text state d
           = (resolve_content p (remainder_part text), resolve_content p (remainder_part text))))
   \<and> (\<not> matched text d \<longrightarrow> chat_input_modifier text visible_text state d = (text, visible_text))"
proof (cases "scan_prompts (dict_values d) (command_part text) (remainder_part text)")
  case None
  then show ?thesis by (simp add: matched_def chat_input_modifier_def)
next
  case (Some r)
  from scan_prompts_Some [OF Some] obtain p where
    "p \<in> set (dict_values d)" "command p = command_part text"
    "r = (resolve_content p (remainder_part text), resolve_content p (remainder_part text))"
    by blast
  with Some show ?thesis
    by (cases "prefix ''/'' text") (auto simp: matched_def chat_input_modifier_def)
qed

theorem resolve_pair_witness:
  "matched ''/foo''
      [(''sum'', \<lparr>title = ''sum'', command = ''/foo'', content = ''Summarize:'',
          creator = ''default_user'', created = ''t0'', modified = ''t0''\<rparr>)]
   \<and> chat_input_modifier ''/foo'' ''v'' ()
      [(''sum'', \<lparr>title = ''sum'', command = ''/foo'', content = ''Summarize:'',
          creator = ''default_user'', created = ''t0'', modified = ''t0''\<rparr>)]
      = (''Summarize:'', ''Summarize:'')
   \<and> \<not> matched ''/unknown text''
      [(''sum'', \<lparr>title = ''sum'', command = ''/foo'', content = ''Summarize:'',
          creator = ''default_user'', created = ''t0'', modified = ''t0''\<rparr>)]
   \<and> chat_input_modifier ''/unknown text'' ''v'' ()
      [(''sum'', \<lparr>title = ''sum'', command = ''/foo'', content = ''Summarize:'',
          creator = ''default_user'', created = ''t0'', modified = ''t0''\<rparr>)]
      = (''/unknown text'', ''v'')"
  using resolve_pair [of "''/foo''"
      "[(''sum'', \<lparr>title = ''sum'', command = ''/foo'', content = ''Summarize:'',
          creator = ''default_user'', created = ''t0'', modified = ''t0''\<rparr>)]" "''v''" "()"]
    resolve_pair [of "''/unknown text''"
      "[(''sum'', \<lparr>title = ''sum'', command = ''/foo'', content = ''Summarize:'',
          creator = ''default_user'', created = ''t0'', modified = ''t0''\<rparr>)]" "''v''" "()"]
  by (simp add: dict_values_def command_part_def remainder_part_def split_maxsplit1_def
      matched_def resolve_content_def)

section \<open>Uniqueness of commands\<close>

lemma create_prompt_inv:
  assumes "store_inv g"
  shows "store_inv (snd (snd (create_prompt json_dump t1 t2 ttl cmd cnt g)))"
proof -
  let ?v = "\<lparr>title = ttl, command = normalize_command cmd, content = cnt, creator = current_user,
              created = t1, modified = t2\<rparr>"
  have "unique_commands (dict_set ttl ?v (prompts_data g))"
    if "\<not> command_taken (normalize_command cmd) ttl (prompts_data g)"
    using that assms by (intro unique_dict_set) (auto simp: store_inv_def dict_keys_def command_taken_iff)
  then show ?thesis using assms
    by (auto simp: create_prompt_def Let_def save_prompts_def store_inv_def dict_keys_def
        distinct_keys_dict_set)
qed

lemma delete_prompt_inv:
  assumes "store_inv g"
  shows "store_inv (snd (snd (delete_prompt json_dump sel g)))"
  using assms
  by (auto simp: delete_prompt_def Let_def save_prompts_def store_inv_def dict_keys_def
      distinct_keys_dict_del unique_dict_del)

lemma update_prompt_inv:
  assumes "store_inv g"
  shows "store_inv (snd (snd (update_prompt json_dump now sel ttl cmd cnt g)))"
proof -
  let ?d = "prompts_data g" and ?c = "normalize_command cmd"
  have main: "distinct (map fst (dict_set ttl v'
                 (if sel \<noteq> ttl then dict_set ttl cur (dict_del sel ?d) else ?d)))
            \<and> unique_commands (dict_set ttl v'
                 (if sel \<noteq> ttl then dict_set ttl cur (dict_del sel ?d) else ?d))"
    if free: "\<not> command_taken ?c sel ?d" and v': "command v' = ?c" for v' cur
  proof (cases "sel = ttl")
    case True
    have "unique_commands (dict_set ttl v' ?d)"
      using assms free v' True
      by (intro unique_dict_set) (auto simp: store_inv_def dict_keys_def command_taken_iff)
    with True assms show ?thesis
      by (simp add: distinct_keys_dict_set store_inv_def dict_keys_def)
  next
    case False
    have "\<forall>e \<in> set (dict_del sel ?d). command (snd e) = command v' \<longrightarrow> fst e = ttl"
      using free v' by (auto simp: command_taken_iff dict_del_def)
    moreover have "distinct (map fst (dict_del sel ?d))"
      using assms by (simp add: store_inv_def dict_keys_def distinct_keys_dict_del)
    moreover have "unique_commands (dict_del sel ?d)"
      using assms by (simp add: store_inv_def unique_dict_del)
    ultimately have "unique_commands (dict_set ttl v' (dict_del sel ?d))"
      by (rule unique_dict_set [rotated 2])
    with False assms show ?thesis
      by (simp add: dict_set_twice distinct_keys_dict_set distinct_keys_dict_del
          store_inv_def dict_keys_def)
  qed
  show ?thesis using assms main
    by (auto simp: update_prompt_def Let_def save_prompts_def store_inv_def dict_keys_def
        split: option.splits)
qed

lemma apply_operation_inv: "store_inv g \<Longrightarrow> store_inv (apply_operation json_dump x g)"
  by (cases x) (simp_all add: create_prompt_inv update_prompt_inv delete_prompt_inv)

lemma run_operations_inv: "store_inv g \<Longrightarrow> store_inv (run_operations json_dump xs g)"
  by (induction xs arbitrary: g) (simp_all add: apply_operation_inv)

text \<open>
  C4. Starting from any dictionary in which no two prompts hold the same command
  string, every sequence of create, update and delete calls, successful or failing,
  leaves a dictionary in which no two prompts hold the same command string.
\<close>

theorem command_uniqueness_invariant:
  assumes "distinct (dict_keys (prompts_data g))" and "unique_commands (prompts_data g)"
  shows "unique_commands (prompts_data (run_operations json_dump xs g))"
  using run_operations_inv [of g json_dump xs] assms by (simp add: store_inv_def)

theorem command_uniqueness_invariant_witness:
  "distinct (dict_keys []) \<and> unique_commands []
   \<and> unique_commands (prompts_data (run_operations (\<lambda>d. ''{}'')
        [Create ''t1'' ''t2'' ''a'' ''foo'' ''X'',
         Create ''t3'' ''t4'' ''b'' ''/foo'' ''Y'',
         Create ''t5'' ''t6'' ''b'' ''bar'' ''Y'',
         Update ''t7'' ''a'' ''c'' ''bar'' ''Z'',
         Update ''t8'' ''a'' ''c'' ''baz'' ''Z'',
         Delete ''zzz'']
        \<lparr>prompts_data = [], prompts_file = None\<rparr>))"
  using command_uniqueness_invariant [of "\<lparr>prompts_data = [], prompts_file = None\<rparr>" "\<lambda>d. ''{}''"
        "[Create ''t1'' ''t2'' ''a'' ''foo'' ''X'',
         Create ''t3'' ''t4'' ''b'' ''/foo'' ''Y'',
         Create ''t5'' ''t6'' ''b'' ''bar'' ''Y'',
         Update ''t7'' ''a'' ''c'' ''bar'' ''Z'',
         Update ''t8'' ''a'' ''c'' ''baz'' ''Z'',
         Delete ''zzz'']"]
  by (simp add: dict_keys_def unique_commands_def)

section \<open>Duplicate commands\<close>

lemma created_not_error:
  "ValidationError \<noteq> created_successfully ttl"
  "DuplicateCommandError c \<noteq> created_successfully ttl"
  by (simp_all add: created_successfully_def ValidationError_def DuplicateCommandError_def)

lemma command_taken_dict_set:
  assumes "k' \<noteq> k" and "command v = c"
  shows "command_taken c k' (dict_set k v d)"
  using assms by (induction d) (auto simp: command_taken_def)

text \<open>
  C5. A first prompt has been created (the call returned the success message). Creating
  a second prompt under a different title, with non-empty fields and a command whose
  normalized form equals the first one's (whichever of the two raw commands carries
  the leading slash), fails with the duplicate-command error and leaves the globals,
  dictionary and file, exactly as the first call left them: the first prompt is still
  stored as it was created, and it is the only prompt when the store was empty before.
\<close>

theorem create_duplicate_command:
  assumes "ttl2 \<noteq> []" and "cmd2 \<noteq> []" and "cnt2 \<noteq> []"
    and "ttl2 \<noteq> ttl1"
    and "normalize_command cmd2 = normalize_command cmd1"
    and "create_prompt json_dump t1 t2 ttl1 cmd1 cnt1 g0 = (created_successfully ttl1, titles, g1)"
  shows "create_prompt json_dump t3 t4 ttl2 cmd2 cnt2 g1
           = (DuplicateCommandError (normalize_command cmd2), get_prompts_list g1, g1)
       \<and> map_of (prompts_data g1) ttl1
           = Some \<lparr>title = ttl1, command = normalize_command cmd1, content = cnt1,
                   creator = current_user, created = t1, modified = t2\<rparr>
       \<and> (prompts_data g0 = [] \<longrightarrow>
            prompts_data g1
              = [(ttl1, \<lparr>title = ttl1, command = normalize_command cmd1, content = cnt1,
                          creator = current_user, created = t1, modified = t2\<rparr>)])"
proof -
  let ?p = "\<lparr>title = ttl1, command = normalize_command cmd1, content = cnt1,
              creator = current_user, created = t1, modified = t2\<rparr>"
  have g1: "prompts_data g1 = dict_set ttl1 ?p (prompts_data g0)"
    using assms(6)
    by (auto simp: create_prompt_def Let_def save_prompts_def created_not_error split: if_splits)
  have taken: "command_taken (normalize_command cmd2) ttl2 (prompts_data g1)"
    unfolding g1 using assms(4,5) by (intro command_taken_dict_set) simp_all
  have "create_prompt json_dump t3 t4 ttl2 cmd2 cnt2 g1
           = (DuplicateCommandError (normalize_command cmd2), get_prompts_list g1, g1)"
    using assms(1-3) taken by (simp add: create_prompt_def)
  moreover have "map_of (prompts_data g1) ttl1 = Some ?p"
    by (simp add: g1 map_of_dict_set)
  moreover have "prompts_data g0 = [] \<longrightarrow> prompts_data g1 = [(ttl1, ?p)]"
    by (simp add: g1)
  ultimately show ?thesis by blast
qed

theorem create_duplicate_command_witness:
  "create_prompt (\<lambda>d. ''{}'') ''t1'' ''t2'' ''first'' ''foo'' ''X'' \<lparr>prompts_data = [], prompts_file = None\<rparr>
     = (created_successfully ''first'', [''first''],
        \<lparr>prompts_data = [(''first'', \<lparr>title = ''first'', command = ''/foo'', content = ''X'',
               creator = ''default_user'', created = ''t1'', modified = ''t2''\<rparr>)],
         prompts_file = Some ''{}''\<rparr>)
   \<and> create_prompt (\<lambda>d. ''{}'') ''t3'' ''t4'' ''second'' ''/foo'' ''Y''
        \<lparr>prompts_data = [(''first'', \<lparr>title = ''first'', command = ''/foo'', content = ''X'',
               creator = ''default_user'', created = ''t1'', modified = ''t2''\<rparr>)],
         prompts_file = Some ''{}''\<rparr>
     = (DuplicateCommandError ''/foo'', [''first''],
        \<lparr>prompts_data = [(''first'', \<lparr>title = ''first'', command = ''/foo'', content = ''X'',
               creator = ''default_user'', created = ''t1'', modified = ''t2''\<rparr>)],
         prompts_file = Some ''{}''\<rparr>)"
  using create_duplicate_command [of "''second''" "''/foo''" "''Y''" "''first''" "''foo''"
      "\<lambda>d. ''{}''" "''t1''" "''t2''" "''X''" "\<lparr>prompts_data = [], prompts_file = None\<rparr>"
      "[''first'']"
      "\<lparr>prompts_data = [(''first'', \<lparr>title = ''first'', command = ''/foo'', content = ''X'',
               creator = ''default_user'', created = ''t1'', modified = ''t2''\<rparr>)],
         prompts_file = Some ''{}''\<rparr>" "''t3''" "''t4''"]
  by (simp add: create_prompt_def normalize_command_def command_taken_def save_prompts_def
      get_prompts_list_def dict_keys_def current_user_def)

section \<open>Renaming on update\<close>

text \<open>
  C8. A prompt \<open>cur\<close> is stored under the non-empty key \<open>t\<close>, and a valid update
  (non-empty fields, normalized command held by no prompt under another key) changes
  the title to \<open>ttl\<close>, which is not yet a key. Afterwards there is no entry under \<open>t\<close>;
  the entry under \<open>ttl\<close> is \<open>cur\<close> with title, command (normalized), content replaced
  by the arguments and \<open>modified\<close> set to the update time, so \<open>creator\<close> and \<open>created\<close>
  are those of \<open>cur\<close>; no other key gives a prompt with this command; every other
  entry is as before; the old key is gone from the key list and the new one is at its
  end; and the file holds the new dictionary.
\<close>

theorem update_prompt_rename:
  assumes "t \<noteq> []" and "map_of (prompts_data g) t = Some cur"
    and "ttl \<noteq> []" and "cmd \<noteq> []" and "cnt \<noteq> []"
    and "ttl \<noteq> t" and "ttl \<notin> set (dict_keys (prompts_data g))"
    and "\<forall>e \<in> set (prompts_data g). command (snd e) = normalize_command cmd \<longrightarrow> fst e = t"
    and "update_prompt json_dump now t ttl cmd cnt g = (msg, titles, g')"
  shows "msg = updated_successfully ttl
       \<and> map_of (prompts_data g') t = None
       \<and> map_of (prompts_data g') ttl
           = Some (cur\<lparr>title := ttl, command := normalize_command cmd, content := cnt,
                        modified := now\<rparr>)
       \<and> (\<forall>k p'. map_of (prompts_data g') k = Some p' \<and> command p' = normalize_command cmd
              \<longrightarrow> k = ttl)
       \<and> (\<forall>k. k \<noteq> t \<and> k \<noteq> ttl \<longrightarrow> map_of (prompts_data g') k = map_of (prompts_data g) k)
       \<and> dict_keys (prompts_data g') = removeAll t (dict_keys (prompts_data g)) @ [ttl]
       \<and> titles = dict_keys (prompts_data g')
       \<and> prompts_file g' = Some (json_dump (prompts_data g'))"
proof -
  let ?d = "prompts_data g"
  let ?p = "cur\<lparr>title := ttl, command := normalize_command cmd, content := cnt, modified := now\<rparr>"
  let ?d' = "dict_set ttl ?p (dict_del t ?d)"
  let ?g = "save_prompts json_dump (g\<lparr>prompts_data := ?d'\<rparr>)"
  have free: "\<not> command_taken (normalize_command cmd) t ?d"
    using assms(8) by (auto simp: command_taken_iff)
  have "update_prompt json_dump now t ttl cmd cnt g
               = (updated_successfully ttl, get_prompts_list ?g, ?g)"
    using assms(1-6) free by (simp add: update_prompt_def Let_def dict_set_twice)
  with assms(9) have "(msg, titles, g') = (updated_successfully ttl, get_prompts_list ?g, ?g)"
    by (rule subst)
  then have res: "msg = updated_successfully ttl" "titles = get_prompts_list ?g" "g' = ?g"
    by blast+
  have d': "prompts_data g' = ?d'" by (simp add: res save_prompts_def)
  have gone: "map_of ?d' t = None"
    using assms(6) by (simp add: map_of_dict_set map_of_dict_del)
  have there: "map_of ?d' ttl = Some ?p" by (simp add: map_of_dict_set)
  have others: "map_of ?d' k = map_of ?d k" if "k \<noteq> t \<and> k \<noteq> ttl" for k
    using that by (simp add: map_of_dict_set map_of_dict_del)
  have only: "k = ttl" if k: "map_of ?d' k = Some p'" "command p' = normalize_command cmd" for k p'
  proof (rule ccontr)
    assume ne: "k \<noteq> ttl"
    with k(1) gone have kt: "k \<noteq> t" by auto
    with ne k(1) others have "map_of ?d k = Some p'" by simp
    then have "(k, p') \<in> set ?d" by (rule map_of_SomeD)
    with assms(8) k(2) have "k = t" by force
    with kt show False by simp
  qed
  have keys: "dict_keys ?d' = removeAll t (dict_keys ?d) @ [ttl]"
    using assms(7) by (simp add: dict_keys_def keys_dict_set keys_dict_del)
  have saved: "prompts_file g' = Some (json_dump (prompts_data g'))"
    by (simp add: res save_prompts_def)
  have ttls: "titles = dict_keys (prompts_data g')"
    by (simp add: res get_prompts_list_def)
  show ?thesis
    unfolding d' using res(1) gone there only others keys saved ttls d' by metis
qed

theorem update_prompt_rename_witness:
  "update_prompt (\<lambda>d. ''{}'') ''t9'' ''old'' ''new'' ''bar'' ''Y''
      \<lparr>prompts_data =
         [(''old'', \<lparr>title = ''old'', command = ''/foo'', content = ''X'',
              creator = ''alice'', created = ''t1'', modified = ''t2''\<rparr>),
          (''other'', \<lparr>title = ''other'', command = ''/baz'', content = ''Z'',
              creator = ''default_user'', created = ''t3'', modified = ''t4''\<rparr>)],
       prompts_file = Some ''{}''\<rparr>
    = (updated_successfully ''new'', [''other'', ''new''],
       \<lparr>prompts_data =
         [(''other'', \<lparr>title = ''other'', command = ''/baz'', content = ''Z'',
              creator = ''default_user'', created = ''t3'', modified = ''t4''\<rparr>),
          (''new'', \<lparr>title = ''new'', command = ''/bar'', content = ''Y'',
              creator = ''alice'', created = ''t1'', modified = ''t9''\<rparr>)],
       prompts_file = Some ''{}''\<rparr>)"
  using update_prompt_rename [of "''old''"
      "\<lparr>prompts_data =
         [(''old'', \<lparr>title = ''old'', command = ''/foo'', content = ''X'',
              creator = ''alice'', created = ''t1'', modified = ''t2''\<rparr>),
          (''other'', \<lparr>title = ''other'', command = ''/baz'', content = ''Z'',
              creator = ''default_user'', created = ''t3'', modified = ''t4''\<rparr>)],
       prompts_file = Some ''{}''\<rparr>"
      "\<lparr>title = ''old'', command = ''/foo'', content = ''X'',
              creator = ''alice'', created = ''t1'', modified = ''t2''\<rparr>"
      "''new''" "''bar''" "''Y''" "\<lambda>d. ''{}''" "''t9''"
      "updated_successfully ''new''" "[''other'', ''new'']"
      "\<lparr>prompts_data =
         [(''other'', \<lparr>title = ''other'', command = ''/baz'', content = ''Z'',
              creator = ''default_user'', created = ''t3'', modified = ''t4''\<rparr>),
          (''new'', \<lparr>title = ''new'', command = ''/bar'', content = ''Y'',
              creator = ''alice'', created = ''t1'', modified = ''t9''\<rparr>)],
       prompts_file = Some ''{}''\<rparr>"]
  by (simp add: update_prompt_def normalize_command_def command_taken_def save_prompts_def
      get_prompts_list_def dict_keys_def dict_del_def)

section \<open>Create under an existing title\<close>

text \<open>
  C10. \<open>create_prompt\<close> with a title that is already a key, non-empty command and
  content, and a normalized command held by no prompt under another key, succeeds.
  The entry under the title becomes a new record built from the arguments alone:
  creator the current user, \<open>created\<close> and \<open>modified\<close> the two clock readings of this
  call; nothing of the previous prompt \<open>old\<close> remains. The keys and all other entries
  are unchanged, and the file holds the new dictionary.
\<close>

theorem create_prompt_overwrites:
  assumes "ttl \<noteq> []" and "cmd \<noteq> []" and "cnt \<noteq> []"
    and "map_of (prompts_data g) ttl = Some old"
    and "\<forall>e \<in> set (prompts_data g). command (snd e) = normalize_command cmd \<longrightarrow> fst e = ttl"
    and "create_prompt json_dump now_created now_modified ttl cmd cnt g = (msg, titles, g')"
  shows "msg = created_successfully ttl
       \<and> map_of (prompts_data g') ttl
           = Some \<lparr>title = ttl, command = normalize_command cmd, content = cnt,
                   creator = current_user, created = now_created, modified = now_modified\<rparr>
       \<and> dict_keys (prompts_data g') = dict_keys (prompts_data g)
       \<and> (\<forall>k. k \<noteq> ttl \<longrightarrow> map_of (prompts_data g') k = map_of (prompts_data g) k)
       \<and> titles = dict_keys (prompts_data g')
       \<and> prompts_file g' = Some (json_dump (prompts_data g'))"
proof -
  let ?p = "\<lparr>title = ttl, command = normalize_command cmd, content = cnt,
              creator = current_user, created = now_created, modified = now_modified\<rparr>"
  let ?g = "save_prompts json_dump (g\<lparr>prompts_data := dict_set ttl ?p (prompts_data g)\<rparr>)"
  have free: "\<not> command_taken (normalize_command cmd) ttl (prompts_data g)"
    using assms(5) by (auto simp: command_taken_iff)
  have key: "ttl \<in> set (map fst (prompts_data g))"
    using assms(4) by (metis map_of_eq_None_iff option.distinct(1) set_map)
  have "create_prompt json_dump now_created now_modified ttl cmd cnt g
          = (created_successfully ttl, get_prompts_list ?g, ?g)"
    using assms(1-3) free by (simp add: create_prompt_def Let_def)
  with assms(6) have "(msg, titles, g') = (created_successfully ttl, get_prompts_list ?g, ?g)"
    by (rule subst)
  then have "msg = created_successfully ttl" "titles = get_prompts_list ?g" "g' = ?g"
    by blast+
  then show ?thesis
    using key
    by (simp add: save_prompts_def map_of_dict_set dict_keys_def keys_dict_set get_prompts_list_def)
qed

theorem create_prompt_overwrites_witness:
  "create_prompt (\<lambda>d. ''{}'') ''t8'' ''t9'' ''old'' ''bar'' ''Y''
      \<lparr>prompts_data =
         [(''old'', \<lparr>title = ''old'', command = ''/foo'', content = ''X'',
              creator = ''alice'', created = ''t1'', modified = ''t2''\<rparr>),
          (''other'', \<lparr>title = ''other'', command = ''/baz'', content = ''Z'',
              creator = ''default_user'', created = ''t3'', modified = ''t4''\<rparr>)],
       prompts_file = Some ''{}''\<rparr>
    = (created_successfully ''old'', [''old'', ''other''],
       \<lparr>prompts_data =
         [(''old'', \<lparr>title = ''old'', command = ''/bar'', content = ''Y'',
              creator = ''default_user'', created = ''t8'', modified = ''t9''\<rparr>),
          (''other'', \<lparr>title = ''other'', command = ''/baz'', content = ''Z'',
              creator = ''default_user'', created = ''t3'', modified = ''t4''\<rparr>)],
       prompts_file = Some ''{}''\<rparr>)"
  using create_prompt_overwrites [of "''old''" "''bar''" "''Y''"
      "\<lparr>prompts_data =
         [(''old'', \<lparr>title = ''old'', command = ''/foo'', content = ''X'',
              creator = ''alice'', created = ''t1'', modified = ''t2''\<rparr>),
          (''other'', \<lparr>title = ''other'', command = ''/baz'', content = ''Z'',
              creator = ''default_user'', created = ''t3'', modified = ''t4''\<rparr>)],
       prompts_file = Some ''{}''\<rparr>"
      "\<lparr>title = ''old'', command = ''/foo'', content = ''X'',
              creator = ''alice'', created = ''t1'', modified = ''t2''\<rparr>"
      "\<lambda>d. ''{}''" "''t8''" "''t9''"
      "created_successfully ''old''" "[''old'', ''other'']"
      "\<lparr>prompts_data =
         [(''old'', \<lparr>title = ''old'', command = ''/bar'', content = ''Y'',
              creator = ''default_user'', created = ''t8'', modified = ''t9''\<rparr>),
          (''other'', \<lparr>title = ''other'', command = ''/baz'', content = ''Z'',
              creator = ''default_user'', created = ''t3'', modified = ''t4''\<rparr>)],
       prompts_file = Some ''{}''\<rparr>"]
  by (simp add: create_prompt_def normalize_command_def command_taken_def save_prompts_def
      get_prompts_list_def dict_keys_def current_user_def)

section \<open>Persistence round trip\<close>

subsection \<open>Write-through\<close>

text \<open>
  Every successful mutation ends with \<open>save_prompts\<close> and a failing one changes
  nothing, so once the file holds the serialized dictionary it does so after every
  sequence of operations.
\<close>

lemma create_prompt_write_through:
  assumes "prompts_file g = Some (json_dump (prompts_data g))"
  shows "prompts_file (snd (snd (create_prompt json_dump t1 t2 ttl cmd cnt g)))
           = Some (json_dump (prompts_data (snd (snd (create_prompt json_dump t1 t2 ttl cmd cnt g)))))"
  using assms by (simp add: create_prompt_def Let_def save_prompts_def)

lemma update_prompt_write_through:
  assumes "prompts_file g = Some (json_dump (prompts_data g))"
  shows "prompts_file (snd (snd (update_prompt json_dump now sel ttl cmd cnt g)))
           = Some (json_dump (prompts_data (snd (snd (update_prompt json_dump now sel ttl cmd cnt g)))))"
  using assms by (simp add: update_prompt_def Let_def save_prompts_def split: option.splits)

lemma delete_prompt_write_through:
  assumes "prompts_file g = Some (json_dump (prompts_data g))"
  shows "prompts_file (snd (snd (delete_prompt json_dump sel g)))
           = Some (json_dump (prompts_data (snd (snd (delete_prompt json_dump sel g)))))"
  using assms by (simp add: delete_prompt_def Let_def save_prompts_def)

lemma run_operations_write_through:
  "prompts_file g = Some (json_dump (prompts_data g)) \<Longrightarrow>
   prompts_file (run_operations json_dump xs g)
     = Some (json_dump (prompts_data (run_operations json_dump xs g)))"
proof (induction xs arbitrary: g)
  case Nil
  then show ?case by simp
next
  case (Cons x xs)
  have "prompts_file (apply_operation json_dump x g)
          = Some (json_dump (prompts_data (apply_operation json_dump x g)))"
    using Cons.prems
    by (cases x)
      (simp_all add: create_prompt_write_through update_prompt_write_through
        delete_prompt_write_through)
  then show ?case using Cons.IH by simp
qed

subsection \<open>Save, then load\<close>

text \<open>
  A restart: the new process begins with its own \<open>prompts_data\<close> (\<open>fresh\<close>; the empty
  dictionary of line 23), the file is what the old process left, and the start-up
  function loads it.
\<close>

lemma restart_reads_file:
  assumes "prompts_file g = Some txt" and "json_load txt = Some d"
  shows "setup_ext json_dump json_load (g\<lparr>prompts_data := fresh\<rparr>)
           = g\<lparr>prompts_data := d\<rparr>"
  using assms by (simp add: setup_ext_def)

lemma restart_after_operations:
  assumes "prompts_file g = Some (json_dump (prompts_data g))"
    and "json_load (json_dump (prompts_data (run_operations json_dump xs g)))
           = Some (prompts_data (run_operations json_dump xs g))"
  shows "prompts_data (setup_ext json_dump json_load
            ((run_operations json_dump xs g)\<lparr>prompts_data := fresh\<rparr>))
           = prompts_data (run_operations json_dump xs g)"
proof -
  have "prompts_file (run_operations json_dump xs g)
          = Some (json_dump (prompts_data (run_operations json_dump xs g)))"
    using assms(1) by (rule run_operations_write_through)
  with assms(2) show ?thesis by (simp add: setup_ext_def)
qed



end
